theory Spec2Isabelle
  imports Complex_Main "HOL-Library.Word" "HOL-Library.Sublist"
begin

section \<open>Data model of the streaming delegate (platform.ts)\<close>

text \<open>
  Times are milliseconds on the event loop's clock. A \<open>Timeout\<close> is the object that
  \<open>setTimeout\<close> returns: it stays a (truthy) object after \<open>clearTimeout\<close>, which only
  disarms it.
\<close>

type_synonym buffer = "8 word list"

datatype SRTPCryptoSuites = AES_CM_128_HMAC_SHA1_80 | AES_CM_256_HMAC_SHA1_80 | NONE

datatype AudioStreamingCodecType = PCMU | PCMA | AAC_ELD | OPUS | MSBC | AMR | AMR_WB

datatype socket_type = udp4 | udp6

record Timeout =
  deadline :: rat
  armed :: bool

definition setTimeout :: "rat \<Rightarrow> rat \<Rightarrow> Timeout" where
  "setTimeout now delay = \<lparr>deadline = now + delay, armed = True\<rparr>"

definition clearTimeout :: "Timeout \<Rightarrow> Timeout" where
  "clearTimeout t = t\<lparr>armed := False\<rparr>"

record SessionInfo =
  address :: string
  ipv6 :: bool
  videoPort :: nat
  videoReturnPort :: nat
  videoCryptoSuite :: SRTPCryptoSuites
  videoSRTP :: buffer
  videoSSRC :: int
  audioPort :: nat
  audioReturnPort :: nat
  audioCryptoSuite :: SRTPCryptoSuites
  audioSRTP :: buffer
  audioSSRC :: int

text \<open>
  The classes \<open>FFmpeg\<close>, \<open>FFmpegParameters\<close> and \<open>TalkbackStream\<close> are imported by the
  delegate from modules outside the three source files; a handle keeps what the delegate
  itself reads or passes: the process name, the input sources of its parameter sets and
  whether its \<open>stdout\<close> is present.
\<close>

record FFmpegParameters =
  param_type :: string
  inputSource :: "string option"

record FFmpeg =
  proc_name :: string
  parameters :: "FFmpegParameters list"
  has_stdout :: bool

record Socket =
  sock_type :: socket_type
  bound_port :: "nat option"

datatype TalkbackStream = TalkbackStream

record ActiveSession =
  videoProcess :: "FFmpeg option"
  audioProcess :: "FFmpeg option"
  returnProcess :: "FFmpeg option"
  timeout :: "Timeout option"
  socket :: "Socket option"
  talkbackStream :: "TalkbackStream option"

text \<open>
  Calls into collaborators (node's dgram and child processes behind \<open>FFmpeg\<close>, the
  parameter builder, the talkback stream, the local livestream manager). Each of them can
  throw; which ones do is an input of the model.
\<close>

datatype signal = SIGTERM | SIGKILL

datatype ext_call =
    CreateSocket socket_type
  | SocketBind nat
  | SocketClose
  | CreateParameters string
  | IsRtspReady
  | GetLocalLivestream
  | StartProcess string
  | PipeFeed
  | SetTalkbackInput
  | NewTalkbackStream
  | PipeTalkback
  | StopTalkbackStream
  | Unpipe string
  | StopProcess string
  | StopLocalLiveStream
  | StdinEnd
  | StdinDestroy
  | StdoutDestroy
  | Kill signal
  | Spawn

datatype level = Debug | Info | Warn | Error

datatype effect =
    Log level string
  | Callback nat "string option"
  | Called ext_call
  | Threw ext_call
  | SetTimeout rat
  | ClearTimeout
  | ForceStop string
  | PendingSet string
  | PendingDelete string
  | OngoingSet string
  | OngoingDelete string
  | Emit string
  | ErrorHandler string

text \<open>
  \<open>thrown env c = Some msg\<close>: the call \<open>c\<close> throws (or its promise rejects) with text
  \<open>msg\<close>. \<open>rtsp_ready\<close> is what \<open>is_rtsp_ready\<close> returns, \<open>process_stdio\<close> and
  \<open>process_stdout\<close> whether a started process has its \<open>stdio\<close> array and its
  \<open>stdout\<close> stream, \<open>has_controller\<close> whether \<open>setController\<close> has run.
\<close>

record environment =
  thrown :: "ext_call \<Rightarrow> string option"
  rtsp_ready :: bool
  rtsp_url :: string
  videoConfig_audio :: bool
  cameraConfig_talkback :: bool
  process_stdio :: bool
  process_stdout :: bool
  has_controller :: bool

definition throws :: "environment \<Rightarrow> ext_call \<Rightarrow> bool" where
  "throws env c = (thrown env c \<noteq> None)"

record delegate =
  pendingSessions :: "string \<rightharpoonup> SessionInfo"
  ongoingSessions :: "string \<rightharpoonup> ActiveSession"
  trace :: "effect list"

definition emit :: "effect list \<Rightarrow> delegate \<Rightarrow> delegate" where
  "emit es d = d\<lparr>trace := trace d @ es\<rparr>"

section \<open>stopStream\<close>

text \<open>
  \<open>try { c1(); c2(); ... } catch (err) { log.error(msg + err) }\<close>: the calls run in order
  until one throws; the handler logs and the rest of the block is skipped.
\<close>

fun attempt :: "(ext_call \<Rightarrow> bool) \<Rightarrow> string \<Rightarrow> ext_call list \<Rightarrow> effect list" where
  "attempt thr msg [] = []"
| "attempt thr msg (c # cs) =
     (if thr c then [Threw c, Log Error msg] else Called c # attempt thr msg cs)"

text \<open>
  The first guarded block of stopStream:
  \<open>session.talkbackStream?.stopTalkbackStream(); session.returnProcess?.stdout?.unpipe();
  session.returnProcess?.stop();\<close>
\<close>

definition returnAudio_calls :: "ActiveSession \<Rightarrow> ext_call list" where
  "returnAudio_calls session =
     (case talkbackStream session of Some _ \<Rightarrow> [StopTalkbackStream] | None \<Rightarrow> []) @
     (case returnProcess session of
        Some p \<Rightarrow> (if has_stdout p then [Unpipe (proc_name p)] else []) @ [StopProcess (proc_name p)]
      | None \<Rightarrow> [])"

definition process_calls :: "FFmpeg option \<Rightarrow> ext_call list" where
  "process_calls p = (case p of Some q \<Rightarrow> [StopProcess (proc_name q)] | None \<Rightarrow> [])"

definition socket_calls :: "Socket option \<Rightarrow> ext_call list" where
  "socket_calls s = (case s of Some _ \<Rightarrow> [SocketClose] | None \<Rightarrow> [])"

text \<open>
  The last guarded block:
  \<open>if (!is_rtsp_ready(...)) { this.localLivestreamManager.stopLocalLiveStream(); }\<close>
\<close>

definition livestream_effects :: "environment \<Rightarrow> effect list" where
  "livestream_effects env =
     (if throws env IsRtspReady
      then [Threw IsRtspReady, Log Error ''Error occurred terminating Eufy Station livestream: '']
      else Called IsRtspReady #
           (if rtsp_ready env then []
            else attempt (throws env) ''Error occurred terminating Eufy Station livestream: ''
                   [StopLocalLiveStream]))"

definition release :: "environment \<Rightarrow> ActiveSession \<Rightarrow> effect list" where
  "release env session =
     (case timeout session of Some _ \<Rightarrow> [ClearTimeout] | None \<Rightarrow> []) @
     attempt (throws env) ''Error occurred terminating returnAudio FFmpeg process: ''
       (returnAudio_calls session) @
     attempt (throws env) ''Error occurred terminating video FFmpeg process: ''
       (process_calls (videoProcess session)) @
     attempt (throws env) ''Error occurred terminating audio FFmpeg process: ''
       (process_calls (audioProcess session)) @
     attempt (throws env) ''Error occurred closing socket: ''
       (socket_calls (socket session)) @
     livestream_effects env"

definition stopStream :: "environment \<Rightarrow> string \<Rightarrow> delegate \<Rightarrow> delegate" where
  "stopStream env sessionId d =
     (let d1 = emit [Log Debug ''Stopping session with id: ''] d;
          d2 = (case pendingSessions d1 sessionId of
                  Some _ \<Rightarrow>
                    emit [PendingDelete sessionId]
                      (d1\<lparr>pendingSessions := (pendingSessions d1)(sessionId := None)\<rparr>)
                | None \<Rightarrow> d1)
      in case ongoingSessions d2 sessionId of
           Some session \<Rightarrow>
             emit [OngoingDelete sessionId, Log Info ''Stopped video stream.'']
               ((emit (release env session) d2)
                  \<lparr>ongoingSessions := (ongoingSessions d2)(sessionId := None)\<rparr>)
         | None \<Rightarrow> emit [Log Debug ''No session to stop.''] d2)"

section \<open>startStream\<close>

record StartStreamRequest =
  sessionID :: string
  rtcp_interval :: rat
  audio_codec :: AudioStreamingCodecType

datatype StreamingRequest =
    START StartStreamRequest
  | RECONFIGURE string
  | STOP string

text \<open>
  The body of startStream is one \<open>try\<close> block; a statement either returns, with the
  delegate as it left it, or raises, and then the \<open>catch\<close> handler runs.
\<close>

datatype 'a outcome = Returned 'a delegate | Raised string delegate

fun andThen :: "'a outcome \<Rightarrow> ('a \<Rightarrow> delegate \<Rightarrow> 'b outcome) \<Rightarrow> 'b outcome" where
  "andThen (Returned x d) f = f x d"
| "andThen (Raised e d) f = Raised e d"

definition call :: "environment \<Rightarrow> ext_call \<Rightarrow> delegate \<Rightarrow> unit outcome" where
  "call env c d =
     (case thrown env c of
        Some msg \<Rightarrow> Raised msg (emit [Threw c] d)
      | None \<Rightarrow> Returned () (emit [Called c] d))"

text \<open>
  Lines 628-654, which run synchronously, up to the first \<open>await\<close>. The lookup reads the
  pending entry and leaves it in place. With no entry, the callback is invoked with an
  error and, there being no \<open>return\<close>, control goes on into the \<open>try\<close> block, where
  the argument \<open>sessionInfo!.ipv6\<close> of \<open>createSocket\<close> raises a TypeError before any
  socket exists.
\<close>

definition startStream_socket ::
  "environment \<Rightarrow> StartStreamRequest \<Rightarrow> nat \<Rightarrow> delegate \<Rightarrow> (SessionInfo \<times> ActiveSession) outcome"
where
  "startStream_socket env request cb d =
     (case pendingSessions d (sessionID request) of
        None \<Rightarrow>
          Raised ''TypeError: Cannot read properties of undefined (reading ipv6)''
            (emit [Log Error ''Error finding session information.'',
                   Callback cb (Some ''Error finding session information''),
                   Log Debug ''VIDEOCONFIG: ''] d)
      | Some sessionInfo \<Rightarrow>
          (let ty = (if ipv6 sessionInfo then udp6 else udp4) in
           andThen (call env (CreateSocket ty) (emit [Log Debug ''VIDEOCONFIG: ''] d)) (\<lambda>_ d1.
           andThen (call env (SocketBind (videoReturnPort sessionInfo)) d1) (\<lambda>_ d2.
             Returned (sessionInfo,
               \<lparr>videoProcess = None, audioProcess = None, returnProcess = None, timeout = None,
                socket = Some \<lparr>sock_type = ty, bound_port = Some (videoReturnPort sessionInfo)\<rparr>,
                talkbackStream = None\<rparr>) d2))))"

text \<open>
  The handlers that startStream registers. While startStream is suspended at an
  \<open>await\<close> the event loop runs other handlers; \<open>activeSession\<close> is then still a local
  object, reached only by the socket's \<open>message\<close> listener.
\<close>

definition inactivity_window :: "StartStreamRequest \<Rightarrow> rat" where
  "inactivity_window request = rtcp_interval request * 5 * 1000"

definition socket_message :: "StartStreamRequest \<Rightarrow> rat \<Rightarrow> ActiveSession \<Rightarrow> ActiveSession \<times> effect list" where
  "socket_message request now activeSession =
     (activeSession\<lparr>timeout := Some (setTimeout now (inactivity_window request))\<rparr>,
      (case timeout activeSession of Some _ \<Rightarrow> [ClearTimeout] | None \<Rightarrow> []) @
      [SetTimeout (inactivity_window request)])"

definition socket_error :: "environment \<Rightarrow> StartStreamRequest \<Rightarrow> delegate \<Rightarrow> delegate" where
  "socket_error env request d =
     stopStream env (sessionID request) (emit [Log Error ''Socket error: ''] d)"

definition inactivity_expired :: "environment \<Rightarrow> StartStreamRequest \<Rightarrow> delegate \<Rightarrow> delegate" where
  "inactivity_expired env request d =
     stopStream env (sessionID request)
       (emit (Log Debug ''Device appears to be inactive. Stopping video stream.'' #
              (if has_controller env then [ForceStop (sessionID request)] else [])) d)"

definition videoProcess_started :: "nat \<Rightarrow> delegate \<Rightarrow> delegate" where
  "videoProcess_started cb d = emit [Callback cb None] d"

definition videoProcess_error :: "environment \<Rightarrow> StartStreamRequest \<Rightarrow> delegate \<Rightarrow> delegate" where
  "videoProcess_error env request d =
     stopStream env (sessionID request) (emit [Log Error ''Video process ended with error: ''] d)"

definition returnProcess_error :: "delegate \<Rightarrow> delegate" where
  "returnProcess_error d = emit [Log Error ''Talkback process ended with error: ''] d"

datatype loop_event =
    StopRequest string
  | SocketMessage rat
  | SocketError
  | InactivityExpired
  | VideoStarted
  | VideoError
  | ReturnError

fun handle ::
  "environment \<Rightarrow> StartStreamRequest \<Rightarrow> nat \<Rightarrow> loop_event \<Rightarrow> ActiveSession \<times> delegate
     \<Rightarrow> ActiveSession \<times> delegate"
where
  "handle env request cb (StopRequest sessionId) (a, d) = (a, stopStream env sessionId d)"
| "handle env request cb (SocketMessage now) (a, d) =
     (fst (socket_message request now a), emit (snd (socket_message request now a)) d)"
| "handle env request cb SocketError (a, d) = (a, socket_error env request d)"
| "handle env request cb InactivityExpired (a, d) = (a, inactivity_expired env request d)"
| "handle env request cb VideoStarted (a, d) = (a, videoProcess_started cb d)"
| "handle env request cb VideoError (a, d) = (a, videoProcess_error env request d)"
| "handle env request cb ReturnError (a, d) = (a, returnProcess_error d)"

fun suspended ::
  "environment \<Rightarrow> StartStreamRequest \<Rightarrow> nat \<Rightarrow> loop_event list \<Rightarrow> ActiveSession \<times> delegate
     \<Rightarrow> ActiveSession \<times> delegate"
where
  "suspended env request cb [] s = s"
| "suspended env request cb (e # es) s = suspended env request cb es (handle env request cb e s)"

text \<open>
  Lines 657-724: the parameter sets, the media source and the primary process. The three
  \<open>await\<close>s of this part (parameter creation twice, the local livestream) have no
  effect on the delegate between them, so the handlers that run meanwhile are taken
  together, before the part. \<open>CreateParameters t\<close> stands for \<open>FFmpegParameters.create\<close>
  with the \<open>setup\<close> and \<open>setRTPTarget\<close> that follow it.
\<close>

definition useAudio :: "environment \<Rightarrow> StartStreamRequest \<Rightarrow> bool" where
  "useAudio env request =
     ((audio_codec request = OPUS \<or> audio_codec request = AAC_ELD) \<and> videoConfig_audio env)"

definition getLocalLivestream :: "environment \<Rightarrow> delegate \<Rightarrow> unit outcome" where
  "getLocalLivestream env d =
     (case thrown env GetLocalLivestream of
        Some err \<Rightarrow> Raised (''Unable to start the livestream: '' @ err) (emit [Threw GetLocalLivestream] d)
      | None \<Rightarrow> Returned () (emit [Called GetLocalLivestream] d))"

definition videoProcess_of :: "environment \<Rightarrow> StartStreamRequest \<Rightarrow> FFmpeg" where
  "videoProcess_of env request =
     (let videoParams = \<lparr>param_type = ''video'',
            inputSource = Some (if rtsp_ready env then rtsp_url env else ''pipe:3'')\<rparr>;
          audioParams = \<lparr>param_type = ''audio'',
            inputSource = Some (if rtsp_ready env then rtsp_url env else ''pipe:4'')\<rparr>
      in \<lparr>proc_name = ''[Video Process]'',
          parameters = (if useAudio env request then [videoParams, audioParams] else [videoParams]),
          has_stdout = process_stdout env\<rparr>)"

definition startStream_video ::
  "environment \<Rightarrow> StartStreamRequest \<Rightarrow> ActiveSession \<Rightarrow> delegate \<Rightarrow> ActiveSession outcome"
where
  "startStream_video env request activeSession d =
     andThen (call env (CreateParameters ''video'') d) (\<lambda>_ d1.
     andThen (if useAudio env request
              then call env (CreateParameters ''audio'') d1
              else Returned ()
                     (if videoConfig_audio env
                      then emit [Log Warn ''An unsupported audio codec was requested.''] d1
                      else d1)) (\<lambda>_ d2.
     andThen (call env IsRtspReady d2) (\<lambda>_ d3.
     andThen (if rtsp_ready env
              then Returned () (emit [Log Debug ''RTSP URL: ''] d3)
              else getLocalLivestream env d3) (\<lambda>_ d4.
     andThen (call env (StartProcess ''[Video Process]'') d4) (\<lambda>_ d5.
     andThen (if process_stdio env \<and> \<not> rtsp_ready env
              then call env PipeFeed d5
              else Returned () d5) (\<lambda>_ d6.
       Returned (activeSession\<lparr>videoProcess := Some (videoProcess_of env request)\<rparr>) d6))))))"

text \<open>Lines 726-740, run when \<open>cameraConfig.talkback\<close> is set.\<close>

definition startStream_talkback ::
  "environment \<Rightarrow> ActiveSession \<Rightarrow> delegate \<Rightarrow> ActiveSession outcome"
where
  "startStream_talkback env activeSession d =
     andThen (call env (CreateParameters ''audio'') d) (\<lambda>_ d1.
     andThen (call env SetTalkbackInput d1) (\<lambda>_ d2.
     andThen (call env NewTalkbackStream d2) (\<lambda>_ d3.
     andThen (call env (StartProcess ''[Talkback Process]'') d3) (\<lambda>_ d4.
     andThen (if process_stdout env then call env PipeTalkback d4 else Returned () d4) (\<lambda>_ d5.
       Returned (activeSession\<lparr>talkbackStream := Some TalkbackStream,
                   returnProcess := Some \<lparr>proc_name = ''[Talkback Process]'',
                     parameters = [\<lparr>param_type = ''audio'', inputSource = None\<rparr>],
                     has_stdout = process_stdout env\<rparr>\<rparr>) d5)))))"

text \<open>
  Lines 742-752: the session goes to the registry of ongoing sessions; the pending entry
  is deleted here, or, when a stop deleted it meanwhile, the new session is stopped at
  once.
\<close>

definition startStream_register ::
  "environment \<Rightarrow> StartStreamRequest \<Rightarrow> ActiveSession \<Rightarrow> delegate \<Rightarrow> delegate"
where
  "startStream_register env request activeSession d =
     (case pendingSessions d (sessionID request) of
        Some _ \<Rightarrow>
          emit [OngoingSet (sessionID request), PendingDelete (sessionID request)]
            (d\<lparr>ongoingSessions := (ongoingSessions d)(sessionID request \<mapsto> activeSession),
               pendingSessions := (pendingSessions d)(sessionID request := None)\<rparr>)
      | None \<Rightarrow>
          stopStream env (sessionID request)
            (emit [OngoingSet (sessionID request),
                   Log Info ''pendingSession has been deleted. Add it to ongoingSession and end it immediately.'']
               (d\<lparr>ongoingSessions := (ongoingSessions d)(sessionID request \<mapsto> activeSession)\<rparr>)))"

text \<open>Lines 754-758, the \<open>catch\<close> handler.\<close>

definition startStream_catch :: "StartStreamRequest \<Rightarrow> nat \<Rightarrow> string \<Rightarrow> delegate \<Rightarrow> delegate" where
  "startStream_catch request cb err d =
     (emit [Log Error ''Stream could not be started: '', Callback cb (Some err),
            PendingDelete (sessionID request)] d)
       \<lparr>pendingSessions := (pendingSessions d)(sessionID request := None)\<rparr>"

text \<open>
  The \<open>try\<close> block as a whole. \<open>evs1\<close> are the handlers that the event loop runs while
  startStream waits for its parameters and its media source, \<open>evs2\<close> those that run while
  it waits for the talkback parameters.
\<close>

definition startStream_try ::
  "environment \<Rightarrow> loop_event list \<Rightarrow> loop_event list \<Rightarrow> StartStreamRequest \<Rightarrow> nat \<Rightarrow> delegate
     \<Rightarrow> unit outcome"
where
  "startStream_try env evs1 evs2 request cb d =
     andThen (startStream_socket env request cb d) (\<lambda>(sessionInfo, a) d1.
     (case suspended env request cb evs1 (a, d1) of (a1, d2) \<Rightarrow>
     andThen (startStream_video env request a1 d2) (\<lambda>a2 d3.
     andThen (if cameraConfig_talkback env
              then (case suspended env request cb evs2 (a2, d3) of (a3, d4) \<Rightarrow>
                      startStream_talkback env a3 d4)
              else Returned a2 d3) (\<lambda>a4 d5.
       Returned () (startStream_register env request a4 d5)))))"

definition startStream ::
  "environment \<Rightarrow> loop_event list \<Rightarrow> loop_event list \<Rightarrow> StartStreamRequest \<Rightarrow> nat \<Rightarrow> delegate
     \<Rightarrow> delegate"
where
  "startStream env evs1 evs2 request cb d =
     (case startStream_try env evs1 evs2 request cb d of
        Returned _ d' \<Rightarrow> d'
      | Raised err d' \<Rightarrow> startStream_catch request cb err d')"

section \<open>handleStreamRequest\<close>

definition handleStreamRequest ::
  "environment \<Rightarrow> loop_event list \<Rightarrow> loop_event list \<Rightarrow> StreamingRequest \<Rightarrow> nat \<Rightarrow> delegate
     \<Rightarrow> delegate"
where
  "handleStreamRequest env evs1 evs2 request cb d =
     (case request of
        START r \<Rightarrow> startStream env evs1 evs2 r cb d
      | RECONFIGURE _ \<Rightarrow>
          emit [Log Debug ''Received request to reconfigure (Ignored)'', Callback cb None] d
      | STOP sessionId \<Rightarrow>
          emit [Callback cb None]
            (stopStream env sessionId (emit [Log Debug ''Receive Apple HK Stop request''] d)))"

section \<open>prepareStream\<close>

record MediaRequest =
  req_port :: nat
  req_srtpCryptoSuite :: SRTPCryptoSuites
  req_srtp_key :: buffer
  req_srtp_salt :: buffer

record PrepareStreamRequest =
  prepare_sessionID :: string
  targetAddress :: string
  addressVersion :: string
  req_video :: MediaRequest
  req_audio :: MediaRequest

record MediaResponse =
  port :: nat
  ssrc :: int
  srtp_key :: buffer
  srtp_salt :: buffer

record PrepareStreamResponse =
  video :: MediaResponse
  audio :: MediaResponse

text \<open>
  \<open>pickPort\<close> (package pick-port) and \<open>generateSynchronisationSource\<close> (the HAP library)
  are outside the repository: what their two calls each return is an input. A rejected
  \<open>pickPort\<close> promise rejects prepareStream: nothing is stored and the callback is not
  invoked. The delegate is the one at the time the last \<open>await\<close> resumes.
\<close>

record allocation =
  videoReturnPort_picked :: "string + nat"
  videoSSRC_generated :: int
  audioReturnPort_picked :: "string + nat"
  audioSSRC_generated :: int

definition prepareStream ::
  "allocation \<Rightarrow> PrepareStreamRequest \<Rightarrow> delegate \<Rightarrow> (string + PrepareStreamResponse) \<times> delegate"
where
  "prepareStream alloc request d =
     (case videoReturnPort_picked alloc of
        Inl err \<Rightarrow> (Inl err, d)
      | Inr videoReturnPort' \<Rightarrow>
     (case audioReturnPort_picked alloc of
        Inl err \<Rightarrow> (Inl err, d)
      | Inr audioReturnPort' \<Rightarrow>
          (let sessionInfo =
                 \<lparr>address = targetAddress request,
                  ipv6 = (addressVersion request = ''ipv6''),
                  videoPort = req_port (req_video request),
                  videoReturnPort = videoReturnPort',
                  videoCryptoSuite = req_srtpCryptoSuite (req_video request),
                  videoSRTP = req_srtp_key (req_video request) @ req_srtp_salt (req_video request),
                  videoSSRC = videoSSRC_generated alloc,
                  audioPort = req_port (req_audio request),
                  audioReturnPort = audioReturnPort',
                  audioCryptoSuite = req_srtpCryptoSuite (req_audio request),
                  audioSRTP = req_srtp_key (req_audio request) @ req_srtp_salt (req_audio request),
                  audioSSRC = audioSSRC_generated alloc\<rparr>;
               response =
                 \<lparr>video = \<lparr>port = videoReturnPort', ssrc = videoSSRC_generated alloc,
                            srtp_key = req_srtp_key (req_video request),
                            srtp_salt = req_srtp_salt (req_video request)\<rparr>,
                  audio = \<lparr>port = audioReturnPort', ssrc = audioSSRC_generated alloc,
                            srtp_key = req_srtp_key (req_audio request),
                            srtp_salt = req_srtp_salt (req_audio request)\<rparr>\<rparr>
           in (Inr response,
               emit [PendingSet (prepare_sessionID request)]
                 (d\<lparr>pendingSessions :=
                      (pendingSessions d)(prepare_sessionID request \<mapsto> sessionInfo)\<rparr>)))))"

section \<open>FfmpegProcess (ffmpeg-new.ts)\<close>

record ChildProcess =
  killed :: bool

record FfmpegProcess =
  callback :: "nat option"
  commandLineArgs :: "string list"
  ffmpegTimeout :: "Timeout option"
  hasError :: bool
  isEnded :: bool
  isLogging :: bool
  isPrepared :: bool
  isStarted :: bool
  isVerbose :: bool
  process :: "ChildProcess option"
  stderrBuffer :: string
  stderrLog :: "string list"

definition new_FfmpegProcess :: "string list option \<Rightarrow> nat option \<Rightarrow> FfmpegProcess" where
  "new_FfmpegProcess args cb =
     \<lparr>callback = cb,
      commandLineArgs = (case args of Some a \<Rightarrow> a | None \<Rightarrow> []),
      ffmpegTimeout = None, hasError = False, isEnded = False, isLogging = False,
      isPrepared = False, isStarted = False, isVerbose = True, process = None,
      stderrBuffer = [], stderrLog = []\<rparr>"

text \<open>
  An array is truthy in JavaScript, the empty one too, so the test
  \<open>!this.commandLineArgs\<close> of prepareProcess never holds.
\<close>

definition prepareProcess ::
  "bool \<Rightarrow> string list option \<Rightarrow> nat option \<Rightarrow> 'a FfmpegProcess_scheme
     \<Rightarrow> 'a FfmpegProcess_scheme \<times> effect list"
where
  "prepareProcess debugAll args cb fp =
     (let fp1 = (case args of Some a \<Rightarrow> fp\<lparr>commandLineArgs := a\<rparr> | None \<Rightarrow> fp);
          fp2 = (case cb of Some c \<Rightarrow> fp1\<lparr>callback := Some c\<rparr> | None \<Rightarrow> fp1);
          fp3 = fp2\<lparr>isLogging := (''-loglevel'' \<in> set (commandLineArgs fp2)),
                    isStarted := False, isEnded := False\<rparr>
      in (fp3\<lparr>isPrepared := True\<rparr>,
          [Log (if isLogging fp3 \<or> isVerbose fp3 \<or> debugAll then Info else Debug)
             ''FFmpeg command: '']))"

definition start ::
  "bool \<Rightarrow> string list option \<Rightarrow> nat option \<Rightarrow> 'a FfmpegProcess_scheme
     \<Rightarrow> 'a FfmpegProcess_scheme \<times> effect list"
where
  "start debugAll args cb fp =
     (case (if isPrepared fp then (fp, []) else prepareProcess debugAll args cb fp) of
        (fp1, es) \<Rightarrow> (fp1\<lparr>process := Some \<lparr>killed = False\<rparr>\<rparr>, es @ [Called Spawn]))"

text \<open>
  The listeners that configureProcess installs. \<open>errorHandler\<close> tells whether an error
  handler was passed to \<open>start\<close>; its invocation is the effect \<open>ErrorHandler\<close>.
\<close>

definition processError :: "bool \<Rightarrow> string \<Rightarrow> effect list" where
  "processError errorHandler message =
     Log Error ''FFmpeg failed to start: '' # (if errorHandler then [ErrorHandler message] else [])"

text \<open>
  Lines 175-188 of the stderr listener, the part that detects the start. What follows them
  in the listener only splits the data into lines for \<open>stderrLog\<close> and the logger.
\<close>

definition dataListener_started :: "'a FfmpegProcess_scheme \<Rightarrow> 'a FfmpegProcess_scheme \<times> effect list" where
  "dataListener_started fp =
     (if \<not> isStarted fp
      then (fp\<lparr>isStarted := True, isEnded := False, callback := None\<rparr>,
            [Log Debug ''Received the first frame.'', Emit ''ffmpegStarted''] @
            (case callback fp of Some cb \<Rightarrow> [Callback cb None] | None \<Rightarrow> []))
      else (fp, []))"

definition logFfmpegError :: "string list \<Rightarrow> effect list" where
  "logFfmpegError lines =
     [Log Error ''FFmpeg process ended unexpectedly with '',
      Log Error ''FFmpeg command line that errored out was: ''] @ map (Log Error) lines"

definition exitListener ::
  "bool \<Rightarrow> int option \<Rightarrow> signal option \<Rightarrow> 'a FfmpegProcess_scheme
     \<Rightarrow> 'a FfmpegProcess_scheme \<times> effect list"
where
  "exitListener errorHandler exitCode sig fp =
     (let cleared = (case ffmpegTimeout fp of Some t \<Rightarrow> [ClearTimeout] | None \<Rightarrow> []);
          fp1 = fp\<lparr>ffmpegTimeout := map_option clearTimeout (ffmpegTimeout fp),
                   isStarted := False, isEnded := True\<rparr>
      in if ffmpegTimeout fp1 \<noteq> None \<and> exitCode = Some 0
         then (fp1\<lparr>process := None, stderrLog := []\<rparr>,
               cleared @ [Log Debug ''FFmpeg process ended (Normal).''])
         else if (exitCode = None \<or> exitCode = Some 255) \<and>
                 (case process fp1 of Some p \<Rightarrow> killed p | None \<Rightarrow> False)
         then (fp1\<lparr>process := None, stderrLog := []\<rparr>,
               cleared @ [Log Debug (if sig = Some SIGKILL then ''FFmpeg process ended (Killed).''
                                     else ''FFmpeg process ended (Expected).'')])
         else (let flushed = (if stderrBuffer fp1 \<noteq> []
                              then stderrLog fp1 @ [stderrBuffer fp1 @ [CHR 0x0A]]
                              else stderrLog fp1)
               in (fp1\<lparr>hasError := True, stderrBuffer := [], process := None, stderrLog := []\<rparr>,
                   cleared @ logFfmpegError flushed @
                   (if errorHandler
                    then [ErrorHandler ''FFmpeg process ended  unexpectedly'']
                    else []))))"

text \<open>
  stopProcess. Every access to the process is through \<open>this.process?.\<close>, so with no process
  only the timer is set. \<open>kill\<close> is taken to deliver its signal, which sets \<open>killed\<close>.
\<close>

definition stopProcess :: "rat \<Rightarrow> 'a FfmpegProcess_scheme \<Rightarrow> 'a FfmpegProcess_scheme \<times> effect list" where
  "stopProcess now fp =
     (fp\<lparr>ffmpegTimeout := Some (setTimeout now 5000),
         process := map_option (\<lambda>p. p\<lparr>killed := True\<rparr>) (process fp)\<rparr>,
      (case process fp of
         Some _ \<Rightarrow> (if ''pipe:0'' \<notin> set (commandLineArgs fp) then [Called StdinEnd] else []) @
                   [Called StdinDestroy, Called StdoutDestroy]
       | None \<Rightarrow> []) @
      [SetTimeout 5000] @
      (case process fp of Some _ \<Rightarrow> [Called (Kill SIGTERM)] | None \<Rightarrow> []))"

definition stop :: "rat \<Rightarrow> 'a FfmpegProcess_scheme \<Rightarrow> 'a FfmpegProcess_scheme \<times> effect list" where
  "stop now fp = stopProcess now fp"

text \<open>The timer that stopProcess arms: \<open>this.process?.kill('SIGKILL')\<close>.\<close>

definition ffmpegTimeout_expired :: "'a FfmpegProcess_scheme \<Rightarrow> effect list" where
  "ffmpegTimeout_expired fp = (case process fp of Some _ \<Rightarrow> [Called (Kill SIGKILL)] | None \<Rightarrow> [])"

section \<open>FfmpegStreamingProcess (ffmpeg-stream.ts)\<close>

record FfmpegStreamingProcess = FfmpegProcess +
  sessionId :: string
  streamTimeout :: "Timeout option"




definition closeListener :: "FfmpegStreamingProcess \<Rightarrow> FfmpegStreamingProcess \<times> effect list" where
  "closeListener sp =
     (sp\<lparr>streamTimeout := map_option clearTimeout (streamTimeout sp)\<rparr>,
      (case streamTimeout sp of Some _ \<Rightarrow> [ClearTimeout] | None \<Rightarrow> []))"

definition errorListener :: "environment \<Rightarrow> FfmpegStreamingProcess \<Rightarrow> delegate \<Rightarrow> delegate" where
  "errorListener env sp d = stopStream env (sessionId sp) (emit [Log Error ''Socket error: ''] d)"





text \<open>
  The error handler that the constructor passes to \<open>start\<close>: stop the stream, then fail
  the pending callback if the process had not started, else force the session to stop.
\<close>

definition streaming_errorHandler ::
  "environment \<Rightarrow> string \<Rightarrow> FfmpegStreamingProcess \<times> delegate \<Rightarrow> FfmpegStreamingProcess \<times> delegate"
where
  "streaming_errorHandler env errorMessage s =
     (case s of (sp, d) \<Rightarrow>
        (let d1 = stopStream env (sessionId sp) d
         in case (if isStarted sp then None else callback sp) of
              Some cb \<Rightarrow> (sp\<lparr>callback := None\<rparr>, emit [Callback cb (Some errorMessage)] d1)
            | None \<Rightarrow>
                (sp, stopStream env (sessionId sp)
                       (emit (if has_controller env then [ForceStop (sessionId sp)] else []) d1))))"

section \<open>Observations on traces, and sample states\<close>

text \<open>The results with which a given callback was invoked, in order.\<close>

fun callback_results :: "nat \<Rightarrow> effect list \<Rightarrow> string option list" where
  "callback_results cb [] = []"
| "callback_results cb (Callback c r # es) =
     (if c = cb then r # callback_results cb es else callback_results cb es)"
| "callback_results cb (_ # es) = callback_results cb es"

text \<open>The effects that release a resource of a session.\<close>

fun is_release :: "effect \<Rightarrow> bool" where
  "is_release ClearTimeout = True"
| "is_release (Called StopTalkbackStream) = True"
| "is_release (Called (Unpipe _)) = True"
| "is_release (Called (StopProcess _)) = True"
| "is_release (Called SocketClose) = True"
| "is_release (Called StopLocalLiveStream) = True"
| "is_release _ = False"

definition removed_before_release :: "string \<Rightarrow> effect list \<Rightarrow> bool" where
  "removed_before_release sid es =
     list_all (\<lambda>e. \<not> is_release e) (takeWhile (\<lambda>e. e \<noteq> OngoingDelete sid) es)"

definition released_before_removal :: "string \<Rightarrow> effect list \<Rightarrow> bool" where
  "released_before_removal sid es =
     list_all (\<lambda>e. \<not> is_release e) (dropWhile (\<lambda>e. e \<noteq> OngoingDelete sid) es)"

definition quiet_env :: environment where
  "quiet_env = \<lparr>thrown = (\<lambda>_. None), rtsp_ready = False, rtsp_url = ''rtsp://camera/live0'',
     videoConfig_audio = True, cameraConfig_talkback = True, process_stdio = True,
     process_stdout = True, has_controller = True\<rparr>"

definition full_session :: ActiveSession where
  "full_session =
     \<lparr>videoProcess = Some \<lparr>proc_name = ''[Video Process]'', parameters = [], has_stdout = True\<rparr>,
      audioProcess = None,
      returnProcess = Some \<lparr>proc_name = ''[Talkback Process]'', parameters = [], has_stdout = True\<rparr>,
      timeout = Some \<lparr>deadline = 5000, armed = True\<rparr>,
      socket = Some \<lparr>sock_type = udp4, bound_port = Some 50000\<rparr>,
      talkbackStream = Some TalkbackStream\<rparr>"

definition streaming :: delegate where
  "streaming =
     \<lparr>pendingSessions = Map.empty, ongoingSessions = [''s1'' \<mapsto> full_session], trace = []\<rparr>"

text \<open>What a step from \<open>d\<close> to \<open>d'\<close> appended to the trace.\<close>

definition effects_of :: "delegate \<Rightarrow> delegate \<Rightarrow> effect list" where
  "effects_of d d' = drop (length (trace d)) (trace d')"


fun call_of :: "effect \<Rightarrow> ext_call option" where
  "call_of (Called c) = Some c"
| "call_of (Threw c) = Some c"
| "call_of _ = None"

definition calls :: "effect list \<Rightarrow> ext_call list" where
  "calls es = List.map_filter call_of es"






definition running :: FfmpegProcess where
  "running = fst (start False (Some [''-i'', ''pipe:3'']) (Some 7) (new_FfmpegProcess None None))"


definition sample_prepare :: PrepareStreamRequest where
  "sample_prepare =
     \<lparr>prepare_sessionID = ''s1'', targetAddress = ''192.168.1.20'', addressVersion = ''ipv4'',
      req_video = \<lparr>req_port = 51000, req_srtpCryptoSuite = AES_CM_128_HMAC_SHA1_80,
                   req_srtp_key = [1, 2, 3], req_srtp_salt = [4, 5]\<rparr>,
      req_audio = \<lparr>req_port = 51002, req_srtpCryptoSuite = AES_CM_128_HMAC_SHA1_80,
                   req_srtp_key = [6, 7, 8], req_srtp_salt = [9, 10]\<rparr>\<rparr>"


definition idle :: delegate where
  "idle = \<lparr>pendingSessions = Map.empty, ongoingSessions = Map.empty, trace = []\<rparr>"

text \<open>The delegate that an outcome leaves, whether the statement returned or raised.\<close>

fun outcome_delegate :: "'a outcome \<Rightarrow> delegate" where
  "outcome_delegate (Returned x d) = d"
| "outcome_delegate (Raised e d) = d"

definition sample_allocation :: allocation where
  "sample_allocation =
     \<lparr>videoReturnPort_picked = Inr 50000, videoSSRC_generated = 4242,
      audioReturnPort_picked = Inr 50002, audioSSRC_generated = 4343\<rparr>"

definition prepared :: delegate where
  "prepared = snd (prepareStream sample_allocation sample_prepare idle)"

definition start_s1 :: StartStreamRequest where
  "start_s1 = \<lparr>sessionID = ''s1'', rtcp_interval = 1 / 2, audio_codec = OPUS\<rparr>"


section \<open>Properties\<close>

subsection \<open>Auxiliary facts\<close>

lemma callback_results_append:
  "callback_results cb (xs @ ys) = callback_results cb xs @ callback_results cb ys"
  by (induction cb xs rule: callback_results.induct) simp_all

lemma callback_results_attempt: "callback_results cb (attempt thr msg cs) = []"
  by (induction cs) simp_all

lemma callback_results_livestream: "callback_results cb (livestream_effects env) = []"
  by (simp add: livestream_effects_def)

lemma callback_results_release: "callback_results cb (release env session) = []"
  by (simp add: release_def callback_results_append callback_results_attempt
      callback_results_livestream split: option.splits)

text \<open>stopStream in one equation: both registries lose the identifier.\<close>

lemma stopStream_eq:
  "stopStream env sid d =
     \<lparr>pendingSessions = (pendingSessions d)(sid := None),
      ongoingSessions = (ongoingSessions d)(sid := None),
      trace = trace d @
        Log Debug ''Stopping session with id: '' #
        (case pendingSessions d sid of Some _ \<Rightarrow> [PendingDelete sid] | None \<Rightarrow> []) @
        (case ongoingSessions d sid of
           Some session \<Rightarrow>
             release env session @ [OngoingDelete sid, Log Info ''Stopped video stream.'']
         | None \<Rightarrow> [Log Debug ''No session to stop.''])\<rparr>"
  by (auto simp add: stopStream_def emit_def Let_def fun_upd_idem split: option.splits)

lemma callback_results_stopStream:
  "callback_results cb (trace (stopStream env sid d)) = callback_results cb (trace d)"
  by (simp add: stopStream_eq callback_results_append callback_results_release
      split: option.splits)

subsection \<open>Stop requests\<close>

text \<open>
  C10. Every STOP request is acknowledged: handleStreamRequest runs stopStream and then
  invokes the callback, once and without an error, whatever the registries hold for the
  identifier; afterwards neither registry has an entry for it.
\<close>

theorem stop_request_acknowledged:
  "trace (handleStreamRequest env evs1 evs2 (STOP sid) cb d) =
     trace (stopStream env sid (emit [Log Debug ''Receive Apple HK Stop request''] d)) @
     [Callback cb None] \<and>
   callback_results cb (trace (handleStreamRequest env evs1 evs2 (STOP sid) cb d)) =
     callback_results cb (trace d) @ [None] \<and>
   pendingSessions (handleStreamRequest env evs1 evs2 (STOP sid) cb d) sid = None \<and>
   ongoingSessions (handleStreamRequest env evs1 evs2 (STOP sid) cb d) sid = None"
  by (simp add: handleStreamRequest_def emit_def callback_results_append
      callback_results_stopStream) (simp add: stopStream_eq)

text \<open>
  C8. Teardown is idempotent. A second stopStream on the same identifier, also one that
  follows the teardown started by a process fault, finds no session: it writes two debug
  lines, releases nothing and leaves both registries as they are. \<open>stop\<close> on a handle
  whose process has exited touches no process: it only sets the kill timer, and the
  expiry of that timer does nothing.
\<close>

theorem teardown_idempotent:
  "stopStream env' sid (stopStream env sid d) =
     emit [Log Debug ''Stopping session with id: '', Log Debug ''No session to stop.'']
       (stopStream env sid d) \<and>
   stopStream env' (sessionID request) (videoProcess_error env request d) =
     emit [Log Debug ''Stopping session with id: '', Log Debug ''No session to stop.'']
       (videoProcess_error env request d) \<and>
   stop now' (fst (exitListener errorHandler exitCode sig fp)) =
     ((fst (exitListener errorHandler exitCode sig fp))\<lparr>ffmpegTimeout := Some (setTimeout now' 5000)\<rparr>,
      [SetTimeout 5000]) \<and>
   ffmpegTimeout_expired (fst (stop now' (fst (exitListener errorHandler exitCode sig fp)))) = []"
  apply (intro conjI)
     apply (simp add: stopStream_eq emit_def)
    apply (simp add: videoProcess_error_def stopStream_eq emit_def)
   apply (simp add: stop_def stopProcess_def exitListener_def Let_def)
  apply (simp add: stop_def stopProcess_def exitListener_def Let_def ffmpegTimeout_expired_def)
  done

lemma attempt_no_removal: "OngoingDelete sid \<notin> set (attempt thr msg cs)"
  by (induction cs) simp_all

lemma release_no_removal: "OngoingDelete sid \<notin> set (release env session)"
  by (simp add: release_def livestream_effects_def attempt_no_removal split: option.splits)

subsection \<open>Order of teardown\<close>

text \<open>
  C4, as stated, fails: in the teardown of a session with a timer, processes and a socket,
  resources are released before the entry leaves the registry of ongoing sessions.
\<close>

theorem removal_before_release_counterexample:
  "\<not> removed_before_release ''s1'' (trace (stopStream quiet_env ''s1'' streaming))"
  by (simp add: removed_before_release_def stopStream_eq streaming_def full_session_def
      quiet_env_def release_def returnAudio_calls_def process_calls_def socket_calls_def
      livestream_effects_def throws_def)

text \<open>
  C4, amended. stopStream releases the resources of a registered session first and
  deletes its entry from the registry of ongoing sessions last: after the deletion
  nothing is released, and the entry is gone when stopStream returns.
\<close>

theorem teardown_releases_then_removes:
  assumes "ongoingSessions d sid = Some session"
  shows "effects_of d (stopStream env sid d) =
           Log Debug ''Stopping session with id: '' #
           (case pendingSessions d sid of Some _ \<Rightarrow> [PendingDelete sid] | None \<Rightarrow> []) @
           release env session @ [OngoingDelete sid, Log Info ''Stopped video stream.''] \<and>
         released_before_removal sid (effects_of d (stopStream env sid d)) \<and>
         ongoingSessions (stopStream env sid d) sid = None"
proof -
  let ?pre = "Log Debug ''Stopping session with id: '' #
           (case pendingSessions d sid of Some _ \<Rightarrow> [PendingDelete sid] | None \<Rightarrow> [])"
  have tr: "effects_of d (stopStream env sid d) =
      ?pre @ release env session @ [OngoingDelete sid, Log Info ''Stopped video stream.'']"
    using assms by (simp add: effects_of_def stopStream_eq)
  have "\<forall>e \<in> set (?pre @ release env session). e \<noteq> OngoingDelete sid"
    using release_no_removal [of sid env session] by (auto split: option.splits)
  then have "dropWhile (\<lambda>e. e \<noteq> OngoingDelete sid)
        ((?pre @ release env session) @ [OngoingDelete sid, Log Info ''Stopped video stream.''])
      = dropWhile (\<lambda>e. e \<noteq> OngoingDelete sid)
          [OngoingDelete sid, Log Info ''Stopped video stream.'']"
    by (intro dropWhile_append2) blast
  then have "released_before_removal sid (effects_of d (stopStream env sid d))"
    by (simp add: tr released_before_removal_def)
  moreover have "ongoingSessions (stopStream env sid d) sid = None"
    by (simp add: stopStream_eq)
  ultimately show ?thesis using tr by simp
qed

theorem teardown_releases_then_removes_witness:
  "ongoingSessions streaming ''s1'' = Some full_session \<and>
   released_before_removal ''s1'' (effects_of streaming (stopStream quiet_env ''s1'' streaming)) \<and>
   ongoingSessions (stopStream quiet_env ''s1'' streaming) ''s1'' = None"
proof -
  have h: "ongoingSessions streaming ''s1'' = Some full_session"
    by (simp add: streaming_def)
  from teardown_releases_then_removes [OF h, of quiet_env] h show ?thesis
    by blast
qed


























subsection \<open>Exit of a supervised process\<close>

text \<open>
  C5, as stated, fails: a process on which \<open>stop\<close> was never called and which exits
  with code 0 is handled as a fault: the error flag is set and the error handler runs.
\<close>

theorem exit_zero_counterexample:
  "hasError (fst (exitListener True (Some 0) None running)) \<and>
   ErrorHandler ''FFmpeg process ended  unexpectedly''
     \<in> set (snd (exitListener True (Some 0) None running))"
  by (simp add: exitListener_def running_def start_def prepareProcess_def new_FfmpegProcess_def
      Let_def logFfmpegError_def)

text \<open>
  C5, amended. An exit with code 0 is handled as a normal exit when the kill timer of
  \<open>stop\<close> is set, which \<open>stop\<close> always does: the error flag keeps its value, the log is
  dropped without an error report and the error handler is not invoked. An exit with
  code 0 with no such timer is handled as a fault: the error flag is set, the retained
  log with the rest of the buffer goes into the error report, and the error handler, if
  there is one, is invoked.
\<close>

theorem exit_zero_normal_after_stop:
  "(ffmpegTimeout fp \<noteq> None \<longrightarrow>
      hasError (fst (exitListener errorHandler (Some 0) sig fp)) = hasError fp \<and>
      stderrLog (fst (exitListener errorHandler (Some 0) sig fp)) = [] \<and>
      snd (exitListener errorHandler (Some 0) sig fp) =
        [ClearTimeout, Log Debug ''FFmpeg process ended (Normal).'']) \<and>
   (ffmpegTimeout fp = None \<longrightarrow>
      hasError (fst (exitListener errorHandler (Some 0) sig fp)) \<and>
      snd (exitListener errorHandler (Some 0) sig fp) =
        logFfmpegError (if stderrBuffer fp \<noteq> [] then stderrLog fp @ [stderrBuffer fp @ [CHR 0x0A]]
                        else stderrLog fp) @
        (if errorHandler then [ErrorHandler ''FFmpeg process ended  unexpectedly''] else [])) \<and>
   ffmpegTimeout (fst (stop now fp)) \<noteq> None"
  by (auto simp add: exitListener_def Let_def stop_def stopProcess_def)

theorem exit_zero_normal_after_stop_witness:
  "ffmpegTimeout (fst (stop 1000 running)) \<noteq> None \<and>
   \<not> hasError (fst (exitListener True (Some 0) None (fst (stop 1000 running)))) \<and>
   snd (exitListener True (Some 0) None (fst (stop 1000 running))) =
     [ClearTimeout, Log Debug ''FFmpeg process ended (Normal).''] \<and>
   ffmpegTimeout running = None \<and>
   hasError (fst (exitListener True (Some 0) None running))"
proof -
  have a: "ffmpegTimeout (fst (stop 1000 running)) \<noteq> None"
    by (simp add: stop_def stopProcess_def)
  have b: "ffmpegTimeout running = None"
    by (simp add: running_def start_def prepareProcess_def new_FfmpegProcess_def Let_def)
  have c: "\<not> hasError (fst (stop 1000 running))"
    by (simp add: stop_def stopProcess_def running_def start_def prepareProcess_def
        new_FfmpegProcess_def Let_def)
  from exit_zero_normal_after_stop [of "fst (stop 1000 running)" True None 1000]
    exit_zero_normal_after_stop [of running True None 1000] a b c
  show ?thesis by simp
qed

subsection \<open>Inactivity timers\<close>




subsection \<open>prepareStream\<close>




subsection \<open>startStream\<close>

lemma startStream_unknown:
  assumes "pendingSessions d (sessionID request) = None"
  shows "startStream env evs1 evs2 request cb d =
     emit [Log Error ''Error finding session information.'',
           Callback cb (Some ''Error finding session information''),
           Log Debug ''VIDEOCONFIG: '',
           Log Error ''Stream could not be started: '',
           Callback cb (Some ''TypeError: Cannot read properties of undefined (reading ipv6)''),
           PendingDelete (sessionID request)] d"
proof -
  have "(pendingSessions d)(sessionID request := None) = pendingSessions d"
    using assms by (simp add: fun_upd_idem)
  then show ?thesis
    using assms
    by (simp add: startStream_def startStream_try_def startStream_socket_def
        startStream_catch_def emit_def)
qed

text \<open>
  C2. A start for an identifier with no pending entry fails through its callback, which
  receives an error (the lookup error and then, from the \<open>catch\<close> handler, the
  TypeError), and does nothing else: no collaborator is called, so no socket is created
  or bound and no process is started, and both registries are as before.
\<close>

theorem start_unknown_session_no_side_effects:
  assumes "pendingSessions d (sessionID request) = None"
  shows "effects_of d (startStream env evs1 evs2 request cb d) =
      [Log Error ''Error finding session information.'',
       Callback cb (Some ''Error finding session information''),
       Log Debug ''VIDEOCONFIG: '',
       Log Error ''Stream could not be started: '',
       Callback cb (Some ''TypeError: Cannot read properties of undefined (reading ipv6)''),
       PendingDelete (sessionID request)] \<and>
    calls (effects_of d (startStream env evs1 evs2 request cb d)) = [] \<and>
    pendingSessions (startStream env evs1 evs2 request cb d) = pendingSessions d \<and>
    ongoingSessions (startStream env evs1 evs2 request cb d) = ongoingSessions d \<and>
    handleStreamRequest env evs1 evs2 (START request) cb d = startStream env evs1 evs2 request cb d"
  by (simp add: startStream_unknown [OF assms] effects_of_def emit_def calls_def map_filter_def
      handleStreamRequest_def)

theorem start_unknown_session_no_side_effects_witness:
  "pendingSessions idle (sessionID start_s1) = None \<and>
   trace (startStream quiet_env [] [] start_s1 7 idle) =
      [Log Error ''Error finding session information.'',
       Callback 7 (Some ''Error finding session information''),
       Log Debug ''VIDEOCONFIG: '',
       Log Error ''Stream could not be started: '',
       Callback 7 (Some ''TypeError: Cannot read properties of undefined (reading ipv6)''),
       PendingDelete ''s1''] \<and>
   pendingSessions (startStream quiet_env [] [] start_s1 7 idle) = Map.empty \<and>
   ongoingSessions (startStream quiet_env [] [] start_s1 7 idle) = Map.empty"
proof -
  have h: "pendingSessions idle (sessionID start_s1) = None"
    by (simp add: idle_def)
  have t: "effects_of idle (startStream quiet_env [] [] start_s1 7 idle) =
      trace (startStream quiet_env [] [] start_s1 7 idle)"
    by (simp add: effects_of_def idle_def)
  from start_unknown_session_no_side_effects [OF h, of quiet_env "[]" "[]" 7] h
  show ?thesis
    unfolding t by (simp add: idle_def start_s1_def)
qed

text \<open>Outcomes: what holds of the delegate after each statement holds after the block.\<close>

lemma andThen_ReturnedE:
  assumes "andThen m f = Returned x d"
  obtains y d1 where "m = Returned y d1" and "f y d1 = Returned x d"
  using assms by (cases m) simp_all












lemma call_returns: "thrown env c = None \<Longrightarrow> call env c d = Returned () (emit [Called c] d)"
  by (simp add: call_def)


lemma startStream_register_pending:
  "pendingSessions (startStream_register env request a d) (sessionID request) = None"
  by (simp add: startStream_register_def stopStream_eq emit_def split: option.splits)

lemma startStream_try_pending:
  assumes "startStream_try env evs1 evs2 request cb d = Returned u d'"
  shows "pendingSessions d' (sessionID request) = None"
  using assms unfolding startStream_try_def
  by (auto elim!: andThen_ReturnedE simp add: startStream_register_pending split: prod.splits)

lemma startStream_pending:
  "pendingSessions (startStream env evs1 evs2 request cb d) (sessionID request) = None"
  by (cases "startStream_try env evs1 evs2 request cb d")
     (simp_all add: startStream_def startStream_try_pending startStream_catch_def emit_def)

text \<open>With nothing thrown, every part of startStream returns and only adds effects.\<close>

lemma emit_emit: "emit es (emit es' d) = emit (es' @ es) d"
  by (simp add: emit_def)

lemma emit_Nil: "emit [] d = d"
  by (simp add: emit_def)

lemma andThen_returns_emit:
  assumes "\<exists>x es. m = Returned x (emit es d)"
    and "\<And>x d1. \<exists>y es. f x d1 = Returned y (emit es d1)"
  shows "\<exists>y es. andThen m f = Returned y (emit es d)"
proof -
  from assms(1) obtain x es where m: "m = Returned x (emit es d)" by blast
  from assms(2) obtain y es' where "f x (emit es d) = Returned y (emit es' (emit es d))" by blast
  then have "andThen m f = Returned y (emit (es @ es') d)"
    by (simp add: m emit_emit)
  then show ?thesis by blast
qed

lemma ex_emit_self: "\<exists>es. d = emit es d"
  using emit_Nil [of d] by metis

lemma ex_emit_same: "\<exists>es. emit es0 d = emit es d"
  by blast

lemma Returned_returns_emit: "\<exists>y es. Returned x d = Returned y (emit es d)"
  using emit_Nil [of d] by metis

lemma startStream_video_returns_emit:
  assumes "\<forall>c. thrown env c = None"
  shows "\<exists>y es. startStream_video env request a d = Returned y (emit es d)"
  unfolding startStream_video_def
  by (intro andThen_returns_emit)
     (simp_all add: assms call_returns getLocalLivestream_def ex_emit_self ex_emit_same)

lemma startStream_talkback_returns_emit:
  assumes "\<forall>c. thrown env c = None"
  shows "\<exists>y es. startStream_talkback env a d = Returned y (emit es d)"
  unfolding startStream_talkback_def
  by (intro andThen_returns_emit)
     (simp_all add: assms call_returns ex_emit_self ex_emit_same)

lemma startStream_socket_returns_emit:
  assumes "\<forall>c. thrown env c = None"
    and "pendingSessions d (sessionID request) = Some sessionInfo"
  shows "\<exists>y es. startStream_socket env request cb d = Returned y (emit es d)"
  using assms by (auto simp add: startStream_socket_def call_returns emit_emit Let_def)

lemma startStream_uninterrupted:
  assumes quiet: "\<forall>c. thrown env c = None"
    and known: "pendingSessions d (sessionID request) = Some sessionInfo"
  shows "\<exists>a es. startStream env [] [] request cb d =
           startStream_register env request a (emit es d)"
proof -
  obtain y es1 where 1: "startStream_socket env request cb d = Returned y (emit es1 d)"
    using startStream_socket_returns_emit [OF quiet known] by blast
  obtain info a where y: "y = (info, a)" by (cases y)
  obtain a2 es2 where 2: "startStream_video env request a (emit es1 d) =
      Returned a2 (emit es2 (emit es1 d))"
    using startStream_video_returns_emit [OF quiet] by blast
  obtain a3 d3 es3 where 3: "(if cameraConfig_talkback env
           then startStream_talkback env a2 (emit es2 (emit es1 d))
           else Returned a2 (emit es2 (emit es1 d))) = Returned a3 d3"
    and d3: "d3 = emit es3 (emit es2 (emit es1 d))"
    using startStream_talkback_returns_emit [OF quiet, of a2 "emit es2 (emit es1 d)"]
      Returned_returns_emit [of a2 "emit es2 (emit es1 d)"]
    by (cases "cameraConfig_talkback env") auto
  have "startStream env [] [] request cb d = startStream_register env request a3 d3"
    using 3 by (cases "cameraConfig_talkback env")
      (simp_all add: startStream_def startStream_try_def 1 y 2)
  then show ?thesis
    unfolding d3 emit_emit by blast
qed

lemma startStream_uninterrupted_last:
  assumes quiet: "\<forall>c. thrown env c = None"
    and known: "pendingSessions d (sessionID request) = Some sessionInfo"
  shows "last (effects_of d (startStream env [] [] request cb d)) =
           PendingDelete (sessionID request) \<and>
         ongoingSessions (startStream env [] [] request cb d) (sessionID request) \<noteq> None"
proof -
  obtain a es where "startStream env [] [] request cb d =
      startStream_register env request a (emit es d)"
    using startStream_uninterrupted [OF quiet known] by blast
  then show ?thesis
    using known by (simp add: startStream_register_def emit_def effects_of_def)
qed

text \<open>
  C3, as stated, fails: when startStream reaches its first \<open>await\<close> the socket is
  created and bound and the pending entry is still in its registry; in a whole start the
  entry is deleted last, after the socket and the processes.
\<close>

theorem pending_entry_kept_counterexample:
  "Called (SocketBind 50000)
     \<in> set (trace (outcome_delegate (startStream_socket quiet_env start_s1 7 prepared))) \<and>
   pendingSessions (outcome_delegate (startStream_socket quiet_env start_s1 7 prepared)) ''s1''
     \<noteq> None \<and>
   trace (startStream quiet_env [] [] start_s1 7 prepared) =
     [PendingSet ''s1'', Log Debug ''VIDEOCONFIG: '', Called (CreateSocket udp4),
      Called (SocketBind 50000), Called (CreateParameters ''video''),
      Called (CreateParameters ''audio''), Called IsRtspReady, Called GetLocalLivestream,
      Called (StartProcess ''[Video Process]''), Called PipeFeed,
      Called (CreateParameters ''audio''), Called SetTalkbackInput, Called NewTalkbackStream,
      Called (StartProcess ''[Talkback Process]''), Called PipeTalkback, OngoingSet ''s1'',
      PendingDelete ''s1'']"
  by (simp add: startStream_def startStream_try_def startStream_socket_def startStream_video_def
      startStream_talkback_def startStream_register_def call_def getLocalLivestream_def
      useAudio_def videoProcess_of_def emit_def Let_def prepared_def prepareStream_def
      sample_allocation_def sample_prepare_def idle_def start_s1_def quiet_env_def)

text \<open>
  C3, amended. The lookup of a start that finds a pending entry removes nothing: the
  synchronous part creates and binds the socket and leaves the pending registry as it
  was. The entry is deleted when the start ends, whatever ran in between: when the
  session is put into the registry of ongoing sessions (with nothing thrown and nothing
  interleaved this deletion is the last effect of the start), or by the \<open>catch\<close>
  handler, or earlier by a stop. After a start has ended, a second start on the same
  identifier finds no entry and calls no collaborator.
\<close>

theorem start_keeps_pending_entry_until_registered:
  assumes "pendingSessions d (sessionID request) = Some sessionInfo"
  shows "pendingSessions (outcome_delegate (startStream_socket env request cb d)) =
      pendingSessions d \<and>
    (thrown env (CreateSocket (if ipv6 sessionInfo then udp6 else udp4)) = None \<and>
     thrown env (SocketBind (videoReturnPort sessionInfo)) = None \<longrightarrow>
       effects_of d (outcome_delegate (startStream_socket env request cb d)) =
         [Log Debug ''VIDEOCONFIG: '',
          Called (CreateSocket (if ipv6 sessionInfo then udp6 else udp4)),
          Called (SocketBind (videoReturnPort sessionInfo))]) \<and>
    ((\<forall>c. thrown env c = None) \<longrightarrow>
       last (effects_of d (startStream env [] [] request cb d)) =
         PendingDelete (sessionID request) \<and>
       ongoingSessions (startStream env [] [] request cb d) (sessionID request) \<noteq> None) \<and>
    pendingSessions (startStream env evs1 evs2 request cb d) (sessionID request) = None \<and>
    calls (effects_of (startStream env evs1 evs2 request cb d)
             (startStream env' evs1' evs2' request cb'
                (startStream env evs1 evs2 request cb d))) = []"
proof -
  have 1: "pendingSessions (outcome_delegate (startStream_socket env request cb d)) =
      pendingSessions d"
    using assms
    by (simp add: startStream_socket_def call_def emit_def Let_def split: option.splits)
  have 2: "thrown env (CreateSocket (if ipv6 sessionInfo then udp6 else udp4)) = None \<and>
     thrown env (SocketBind (videoReturnPort sessionInfo)) = None \<longrightarrow>
       effects_of d (outcome_delegate (startStream_socket env request cb d)) =
         [Log Debug ''VIDEOCONFIG: '',
          Called (CreateSocket (if ipv6 sessionInfo then udp6 else udp4)),
          Called (SocketBind (videoReturnPort sessionInfo))]"
    using assms
    by (simp add: startStream_socket_def call_def emit_def Let_def effects_of_def)
  have 3: "(\<forall>c. thrown env c = None) \<longrightarrow>
       last (effects_of d (startStream env [] [] request cb d)) =
         PendingDelete (sessionID request) \<and>
       ongoingSessions (startStream env [] [] request cb d) (sessionID request) \<noteq> None"
    using startStream_uninterrupted_last [OF _ assms] by blast
  have 4: "pendingSessions (startStream env evs1 evs2 request cb d) (sessionID request) = None"
    by (rule startStream_pending)
  have 5: "calls (effects_of (startStream env evs1 evs2 request cb d)
             (startStream env' evs1' evs2' request cb'
                (startStream env evs1 evs2 request cb d))) = []"
    by (simp add: startStream_unknown [OF 4] effects_of_def emit_def calls_def map_filter_def)
  from 1 2 3 4 5 show ?thesis by blast
qed

theorem start_keeps_pending_entry_until_registered_witness:
  "pendingSessions prepared (sessionID start_s1) \<noteq> None \<and>
   pendingSessions (outcome_delegate (startStream_socket quiet_env start_s1 7 prepared)) =
     pendingSessions prepared \<and>
   (\<forall>c. thrown quiet_env c = None) \<and>
   last (effects_of prepared (startStream quiet_env [] [] start_s1 7 prepared)) =
     PendingDelete ''s1'' \<and>
   pendingSessions (startStream quiet_env [StopRequest ''s1''] [VideoError] start_s1 7 prepared)
     ''s1'' = None"
proof -
  obtain info where h: "pendingSessions prepared (sessionID start_s1) = Some info"
    by (simp add: prepared_def prepareStream_def sample_allocation_def sample_prepare_def
        idle_def start_s1_def emit_def Let_def)
  have q: "\<forall>c. thrown quiet_env c = None"
    by (simp add: quiet_env_def)
  have s: "sessionID start_s1 = ''s1''"
    by (simp add: start_s1_def)
  from start_keeps_pending_entry_until_registered
    [OF h, of quiet_env 7 "[StopRequest ''s1'']" "[VideoError]" quiet_env "[]" "[]" 7] h q s
  show ?thesis by simp
qed




end
